theory Spec2Isabelle
  imports Main "HOL-Library.Monad_Syntax"
begin

section \<open>JavaScript values\<close>

text \<open>
  The router of \<^verbatim>\<open>src/router.ts\<close> works on values whose static type is \<^verbatim>\<open>any\<close>:
  the result of \<^verbatim>\<open>JSON.parse\<close>, the error objects of its collaborators, the HTTP
  response. They are modelled by one datatype. An object is the list of its own
  properties, looked up with \<open>map_of\<close>. Numbers are abstracted to integers: the
  source only tests a number for truthiness and compares a status code with 200.
\<close>

datatype jsval =
    JUndefined
  | JNull
  | JBool bool
  | JNum int
  | JStr string
  | JArr "jsval list"
  | JObj "(string \<times> jsval) list"

text \<open>ToBoolean, as used by \<^verbatim>\<open>if (x)\<close>, \<^verbatim>\<open>x && y\<close> and \<^verbatim>\<open>x ? y : z\<close>.\<close>

fun truthy :: "jsval \<Rightarrow> bool" where
  "truthy JUndefined = False"
| "truthy JNull = False"
| "truthy (JBool b) = b"
| "truthy (JNum n) = (n \<noteq> 0)"
| "truthy (JStr s) = (s \<noteq> [])"
| "truthy (JArr xs) = True"
| "truthy (JObj kvs) = True"

text \<open>
  Property access \<^verbatim>\<open>v.k\<close>. On \<^verbatim>\<open>undefined\<close> and \<^verbatim>\<open>null\<close> it raises a TypeError,
  which is the result \<open>None\<close>. On an object it yields the own property or
  \<^verbatim>\<open>undefined\<close>; on a primitive or an array it yields \<^verbatim>\<open>undefined\<close> for every key
  the router uses (none of them names a built-in property).
\<close>

fun getProp :: "jsval \<Rightarrow> string \<Rightarrow> jsval option" where
  "getProp JUndefined k = None"
| "getProp JNull k = None"
| "getProp (JObj kvs) k = Some (case map_of kvs k of None \<Rightarrow> JUndefined | Some v \<Rightarrow> v)"
| "getProp (JBool b) k = Some JUndefined"
| "getProp (JNum n) k = Some JUndefined"
| "getProp (JStr s) k = Some JUndefined"
| "getProp (JArr xs) k = Some JUndefined"

text \<open>The guard \<^verbatim>\<open>v.k1 && v.k1.k2\<close>: the second access happens only on a truthy \<^verbatim>\<open>v.k1\<close>.\<close>

definition andProp :: "jsval \<Rightarrow> string \<Rightarrow> string \<Rightarrow> jsval option" where
  "andProp v k1 k2 =
     do { a \<leftarrow> getProp v k1; if truthy a then getProp a k2 else Some a }"

text \<open>The default \<^verbatim>\<open>x ? x : d\<close>.\<close>

definition orElse :: "jsval \<Rightarrow> jsval \<Rightarrow> jsval" where
  "orElse x d = (if truthy x then x else d)"

section \<open>Data model\<close>

record IBodySNS =
  Type :: string
  MessageId :: string
  TopicArn :: string
  Subject :: string
  Message :: string
  Timestamp :: string
  SignatureVersion :: string
  Signature :: string
  SigningCertURL :: string
  UnsubscribeURL :: string
  SubscribeURL :: "string option"

text \<open>
  The \<^verbatim>\<open>raw\<close> field of an error is \<^verbatim>\<open>any\<close>: the router stores either a value
  (a collaborator's error, an object literal) or the verified envelope.
\<close>

datatype rawContext = RawValue jsval | RawEnvelope IBodySNS

record IError =
  reason :: string
  code :: string
  raw :: rawContext

record IOrderInfo =
  instanceId :: jsval
  slotId :: jsval
  productInfo :: jsval

text \<open>A handler is a function or is absent; the record says which ones are supplied.\<close>

record IHandlers =
  onError :: bool
  onOnlyValidateMessage :: bool
  onNonDRSMessage :: bool
  onDeviceDeregistered :: bool
  onDeviceRegistered :: bool
  onItemShippedNotification :: bool
  onOrderCancelled :: bool
  onOrderPlaced :: bool
  onSubscriptionChanged :: bool

definition knownMessageTypes :: "string list" where
  "knownMessageTypes =
     [''DeviceDeregisteredNotification'',
      ''DeviceRegisteredNotification'',
      ''ItemShippedNotification'',
      ''OrderCancelledNotification'',
      ''OrderPlacedNotification'',
      ''SubscriptionChangedNotification'']"

record errorCodesTable =
  invalid_json :: string
  invalid_signature :: string
  missing_handler :: string
  not_drs :: string
  unknown_message :: string
  invalid_subscription_request :: string
  invalid_subscription_request_response :: string

definition errorCodes :: errorCodesTable where
  "errorCodes = \<lparr>
     invalid_json = ''we could not parse the json of the message'',
     invalid_signature = ''invalid signature for the incoming message'',
     missing_handler = ''missing the handler to handle that notification'',
     not_drs = ''this is not a DRS message, we placed it back into the raw property'',
     unknown_message = ''unknown message type received'',
     invalid_subscription_request =
       ''could not confirm subscription due to malformed object or missing url'',
     invalid_subscription_request_response =
       ''could not confirm the subscription due to a remote error'' \<rparr>"

text \<open>
  The module-level template \<^verbatim>\<open>missingHandlerError\<close> is shared by all calls and mutated
  before each report. Only \<^verbatim>\<open>raw.handler\<close> is ever written, so the store holds that
  one string (initially empty) and the template's value is a function of it.
\<close>

definition missingHandlerError :: "string \<Rightarrow> IError" where
  "missingHandlerError handler = \<lparr>
     reason = missing_handler errorCodes,
     code = ''missing_handler'',
     raw = RawValue (JObj [(''handler'', JStr handler)]) \<rparr>"

section \<open>Observable actions\<close>

text \<open>
  What one call does to the outside, in order: the handler it invokes (with the
  arguments it passes), the outbound GET, or a TypeError that nothing catches
  (a rejected promise of the \<^verbatim>\<open>async\<close> callback, or an exception in the HTTP
  client's callback).
\<close>

datatype action =
    Call_onError IError
  | Call_onNonDRSMessage IBodySNS
  | Call_onDeviceDeregistered jsval jsval jsval jsval
  | Call_onDeviceRegistered jsval jsval jsval jsval
  | Call_onItemShippedNotification jsval jsval jsval IOrderInfo jsval
  | Call_onOrderCancelled jsval jsval jsval IOrderInfo jsval
  | Call_onOrderPlaced jsval jsval jsval IOrderInfo jsval
  | Call_onSubscriptionChanged jsval jsval jsval jsval jsval
  | Call_onOnlyValidateMessage "IBodySNS option"
  | Call_callback_error IError jsval
  | Call_callback_ok "IBodySNS option"
  | Resolve "IBodySNS option"
  | Reject IError
  | Request string
  | TypeError

text \<open>\<^verbatim>\<open>handlers.onError(e)\<close>: calling an absent handler is a TypeError.\<close>

definition callOnError :: "IHandlers \<Rightarrow> IError \<Rightarrow> action list" where
  "callOnError handlers e = (if onError handlers then [Call_onError e] else [TypeError])"

section \<open>receiveRequest\<close>

text \<open>
  \<^verbatim>\<open>knownMessageTypes.indexOf(v)\<close>: the first position whose element is strictly
  equal to \<open>v\<close>, or \<open>-1\<close>.
\<close>

fun indexOfFrom :: "string list \<Rightarrow> jsval \<Rightarrow> int \<Rightarrow> int" where
  "indexOfFrom [] v i = - 1"
| "indexOfFrom (x # xs) v i = (if v = JStr x then i else indexOfFrom xs v (i + 1))"

definition indexOf :: "string list \<Rightarrow> jsval \<Rightarrow> int" where
  "indexOf xs v = indexOfFrom xs v 0"

text \<open>
  Lines 169 to 200, without the handler calls: the payload the router goes on with,
  or the reason it stops. \<open>None\<close> is a TypeError raised by one of the guards.
\<close>

datatype unwrapped = Proceed jsval | UnknownType jsval | NonDRS

definition unwrapMessage :: "jsval \<Rightarrow> unwrapped option" where
  "unwrapMessage message =
     do { viaDefault \<leftarrow> andProp message ''default'' ''deviceInfo'';
       if truthy viaDefault then map_option Proceed (getProp message ''default'') else
     do { viaEmail \<leftarrow> andProp message ''email'' ''deviceInfo'';
       if truthy viaEmail then map_option Proceed (getProp message ''email'') else
     do { viaHttp \<leftarrow> andProp message ''http'' ''deviceInfo'';
       if truthy viaHttp then map_option Proceed (getProp message ''http'') else
     do { viaHttps \<leftarrow> andProp message ''https'' ''deviceInfo'';
       if truthy viaHttps then map_option Proceed (getProp message ''https'') else
     do { direct \<leftarrow> andProp message ''notificationInfo'' ''notificationType'';
       if truthy direct then
         do { notificationInfo \<leftarrow> getProp message ''notificationInfo'';
              notificationType \<leftarrow> getProp notificationInfo ''notificationType'';
              if indexOf knownMessageTypes notificationType = - 1
              then Some (UnknownType notificationType)
              else Some (Proceed message) }
       else Some NonDRS } } } } }"

text \<open>Lines 203 to 206: serialNumber, modelId, messageType, customerId.\<close>

definition extractFields :: "jsval \<Rightarrow> (jsval \<times> jsval \<times> jsval \<times> jsval) option" where
  "extractFields message =
     do { deviceInfo \<leftarrow> getProp message ''deviceInfo'';
          deviceIdentifier \<leftarrow> getProp deviceInfo ''deviceIdentifier'';
          serialNumber \<leftarrow> getProp deviceIdentifier ''serialNumber'';
          productIdentifier \<leftarrow> getProp deviceInfo ''productIdentifier'';
          modelId \<leftarrow> getProp productIdentifier ''modelId'';
          notificationInfo \<leftarrow> getProp message ''notificationInfo'';
          messageType \<leftarrow> getProp notificationInfo ''notificationType'';
          customerInfo \<leftarrow> getProp message ''customerInfo'';
          customerId \<leftarrow> getProp customerInfo ''directedCustomerId'';
          Some (serialNumber, modelId, messageType, customerId) }"

text \<open>
  The order argument of \<^verbatim>\<open>onItemShippedNotification\<close> and \<^verbatim>\<open>onOrderPlaced\<close>
  (lines 226 to 230 and 250 to 254, the same text) and of \<^verbatim>\<open>onOrderCancelled\<close>
  (lines 238 to 242).
\<close>

definition orderInfoOf :: "jsval \<Rightarrow> IOrderInfo option" where
  "orderInfoOf message =
     do { orderInfo \<leftarrow> getProp message ''orderInfo'';
          i \<leftarrow> getProp orderInfo ''instanceId'';
          s \<leftarrow> getProp orderInfo ''slotId'';
          p \<leftarrow> getProp orderInfo ''productInfo'';
          Some \<lparr> instanceId = orElse i (JStr []), slotId = orElse s (JStr []),
                 productInfo = p \<rparr> }"

definition cancelledOrderInfoOf :: "jsval \<Rightarrow> IOrderInfo option" where
  "cancelledOrderInfoOf message =
     do { orderInfo \<leftarrow> getProp message ''orderInfo'';
          i \<leftarrow> getProp orderInfo ''instanceId'';
          s \<leftarrow> getProp orderInfo ''slotId'';
          Some \<lparr> instanceId = orElse i (JStr []), slotId = orElse s (JStr []),
                 productInfo = JArr [] \<rparr> }"

text \<open>
  Lines 262 and 263: \<^verbatim>\<open>(message.subscriptionInfo ? message.subscriptionInfo : {})
  .slotsSubscriptionStatus\<close>.
\<close>

definition subscriptionStatusOf :: "jsval \<Rightarrow> jsval option" where
  "subscriptionStatusOf message =
     do { s \<leftarrow> getProp message ''subscriptionInfo'';
          getProp (orElse s (JObj [])) ''slotsSubscriptionStatus'' }"

text \<open>
  A missing handler (for instance lines 214 and 215): the shared template is written,
  then passed to \<^verbatim>\<open>onError\<close>. The result is the actions and the store.
\<close>

definition reportMissing :: "IHandlers \<Rightarrow> string \<Rightarrow> action list \<times> string" where
  "reportMissing handlers name = (callOnError handlers (missingHandlerError name), name)"

definition orThrow :: "action option \<Rightarrow> action list" where
  "orThrow a = (case a of None \<Rightarrow> [TypeError] | Some x \<Rightarrow> [x])"

text \<open>Lines 210 to 267: the chain over \<^verbatim>\<open>messageType\<close>; it has no final \<^verbatim>\<open>else\<close>.\<close>

definition dispatch ::
  "IHandlers \<Rightarrow> string \<Rightarrow> jsval \<Rightarrow> jsval \<times> jsval \<times> jsval \<times> jsval \<Rightarrow> action list \<times> string"
where
  "dispatch handlers store message extracted =
     (case extracted of (serialNumber, modelId, messageType, customerId) \<Rightarrow>
      if messageType = JStr ''DeviceDeregisteredNotification'' then
        (if onDeviceDeregistered handlers
         then ([Call_onDeviceDeregistered customerId modelId serialNumber message], store)
         else reportMissing handlers ''onDeviceDeregistered'')
      else if messageType = JStr ''DeviceRegisteredNotification'' then
        (if onDeviceRegistered handlers
         then ([Call_onDeviceRegistered customerId modelId serialNumber message], store)
         else reportMissing handlers ''onDeviceRegistered'')
      else if messageType = JStr ''ItemShippedNotification'' then
        (if onItemShippedNotification handlers
         then (orThrow (map_option
                 (\<lambda>orderInfo. Call_onItemShippedNotification customerId modelId serialNumber
                    orderInfo message)
                 (orderInfoOf message)), store)
         else reportMissing handlers ''onItemShippedNotification'')
      else if messageType = JStr ''OrderCancelledNotification'' then
        (if onOrderCancelled handlers
         then (orThrow (map_option
                 (\<lambda>orderInfo. Call_onOrderCancelled customerId modelId serialNumber
                    orderInfo message)
                 (cancelledOrderInfoOf message)), store)
         else reportMissing handlers ''onOrderCancelled'')
      else if messageType = JStr ''OrderPlacedNotification'' then
        (if onOrderPlaced handlers
         then (orThrow (map_option
                 (\<lambda>orderInfo. Call_onOrderPlaced customerId modelId serialNumber
                    orderInfo message)
                 (orderInfoOf message)), store)
         else reportMissing handlers ''onOrderPlaced'')
      else if messageType = JStr ''SubscriptionChangedNotification'' then
        (if onSubscriptionChanged handlers
         then (orThrow (map_option
                 (\<lambda>status. Call_onSubscriptionChanged customerId modelId serialNumber
                    status message)
                 (subscriptionStatusOf message)), store)
         else reportMissing handlers ''onSubscriptionChanged'')
      else ([], store))"

text \<open>
  Lines 137 to 150, the callback given to the HTTP client. Its guard reads \<^verbatim>\<open>err\<close>,
  the verifier's error of the enclosing callback, not \<^verbatim>\<open>confirmErr\<close>.
\<close>

definition confirmCallback ::
  "IHandlers \<Rightarrow> jsval \<Rightarrow> jsval \<times> jsval \<times> jsval \<Rightarrow> action list"
where
  "confirmCallback handlers err response =
     (case response of (confirmErr, confirmResponse, confirmBody) \<Rightarrow>
      let validationError = \<lparr>
            reason = invalid_subscription_request_response errorCodes,
            code = ''invalid_subscription_request_response'',
            raw = RawValue (JObj [(''err'', confirmErr), (''resp'', confirmResponse),
                                  (''body'', confirmBody)]) \<rparr>
      in if err \<noteq> JNull then callOnError handlers validationError
         else (case getProp confirmResponse ''statusCode'' of
                 None \<Rightarrow> [TypeError]
               | Some statusCode \<Rightarrow>
                   if statusCode \<noteq> JNum 200 then callOnError handlers validationError
                   else []))"

text \<open>
  \<^verbatim>\<open>receiveRequest(body, handlers)\<close>. The collaborators are parameters:
  \<open>JSON_parse\<close> gives \<open>Inl\<close> the exception or \<open>Inr\<close> the value; \<open>request\<close> gives the
  arguments the HTTP client passes to its callback; \<open>err\<close> and \<open>parsed\<close> are the
  arguments the verifier passes to its callback for \<^verbatim>\<open>body\<close>. The last argument and
  the second result are the store of \<open>missingHandlerError\<close>.
\<close>

definition receiveRequest ::
  "(string \<Rightarrow> jsval + jsval) \<Rightarrow> (string \<Rightarrow> jsval \<times> jsval \<times> jsval) \<Rightarrow>
   jsval \<Rightarrow> IBodySNS \<Rightarrow> IHandlers \<Rightarrow> string \<Rightarrow> action list \<times> string"
where
  "receiveRequest JSON_parse request err parsed handlers store =
     (if truthy err then
        (callOnError handlers \<lparr> reason = invalid_signature errorCodes,
           code = ''invalid_signature'', raw = RawValue err \<rparr>, store)
      else if Type parsed = ''SubscriptionConfirmation'' then
        (let url = (case SubscribeURL parsed of
                      None \<Rightarrow> []
                    | Some u \<Rightarrow> if u \<noteq> [] then u else [])
         in if url = [] then
              (callOnError handlers \<lparr> reason = invalid_subscription_request errorCodes,
                 code = ''invalid_subscription_request'', raw = RawEnvelope parsed \<rparr>, store)
            else (Request url # confirmCallback handlers err (request url), store))
      else
        (case JSON_parse (Message parsed) of
           Inl er \<Rightarrow>
             (callOnError handlers \<lparr> reason = invalid_json errorCodes,
                code = ''invalid_json'', raw = RawValue er \<rparr>, store)
         | Inr payload \<Rightarrow>
             (case unwrapMessage payload of
                None \<Rightarrow> ([TypeError], store)
              | Some (UnknownType notificationType) \<Rightarrow>
                  (callOnError handlers \<lparr> reason = unknown_message errorCodes,
                     code = ''unknown_message'',
                     raw = RawValue (JObj [(''message'', notificationType)]) \<rparr>, store)
              | Some NonDRS \<Rightarrow>
                  (if onNonDRSMessage handlers then ([Call_onNonDRSMessage parsed], store)
                   else (callOnError handlers \<lparr> reason = not_drs errorCodes,
                           code = ''not_drs'', raw = RawEnvelope parsed \<rparr>, store))
              | Some (Proceed message) \<Rightarrow>
                  (case extractFields message of
                     None \<Rightarrow> ([TypeError], store)
                   | Some extracted \<Rightarrow> dispatch handlers store message extracted))))"

section \<open>validate\<close>

text \<open>
  \<^verbatim>\<open>validate(message, handlers?, callback?)\<close>. \<open>err\<close> and \<open>parsed\<close> are the verifier's
  callback arguments (\<open>parsed\<close> is \<^verbatim>\<open>undefined\<close>, here \<open>None\<close>, when it reports an
  error); \<open>handlers\<close> is \<open>None\<close> when omitted and \<open>callback\<close> says whether the plain
  callback is supplied. The first result says whether a promise is returned.
\<close>

definition validate ::
  "jsval \<Rightarrow> IBodySNS option \<Rightarrow> jsval \<Rightarrow> IHandlers option \<Rightarrow> bool \<Rightarrow> bool \<times> action list"
where
  "validate err parsed message handlers callback =
     (let validationError = \<lparr> reason = invalid_signature errorCodes,
            code = ''invalid_signature'', raw = RawValue err \<rparr>;
          isPromise = (handlers = None \<and> \<not> callback)
      in if isPromise then
           (True, if truthy err then [Reject validationError] else [Resolve parsed])
         else
           (False,
            let onSuccess =
                  (if (case handlers of None \<Rightarrow> False | Some h \<Rightarrow> onOnlyValidateMessage h)
                   then [Call_onOnlyValidateMessage parsed]
                   else if callback then [Call_callback_ok parsed]
                   else [])
            in if truthy err then
                 (if (case handlers of None \<Rightarrow> False | Some h \<Rightarrow> onError h)
                  then [Call_onError validationError]
                  else if callback then [Call_callback_error validationError message]
                  else onSuccess)
               else onSuccess))"

section \<open>Vocabulary of the properties\<close>

text \<open>\<^verbatim>\<open>undefined\<close> and \<^verbatim>\<open>null\<close>, the two values a property access fails on.\<close>

definition nullish :: "jsval \<Rightarrow> bool" where
  "nullish v = (v = JUndefined \<or> v = JNull)"

text \<open>The value found under a key, \<^verbatim>\<open>undefined\<close> where there is none to find.\<close>

definition lookup :: "jsval \<Rightarrow> string \<Rightarrow> jsval" where
  "lookup v k = (case getProp v k of None \<Rightarrow> JUndefined | Some x \<Rightarrow> x)"

text \<open>The guard \<^verbatim>\<open>v.k1 && v.k1.k2\<close> evaluates, and to a truthy value.\<close>

definition guardHolds :: "jsval \<Rightarrow> string \<Rightarrow> string \<Rightarrow> bool" where
  "guardHolds v k1 k2 = (case andProp v k1 k2 of None \<Rightarrow> False | Some c \<Rightarrow> truthy c)"

text \<open>The transport keys, in the order of lines 169 to 176.\<close>

definition transportKeys :: "string list" where
  "transportKeys = [''default'', ''email'', ''http'', ''https'']"

text \<open>
  A notification carries its identity when the objects that lines 203 to 206
  dereference are there: \<^verbatim>\<open>deviceInfo.deviceIdentifier\<close>,
  \<^verbatim>\<open>deviceInfo.productIdentifier\<close>, \<^verbatim>\<open>notificationInfo\<close> and \<^verbatim>\<open>customerInfo\<close>.
\<close>

definition carriesIdentity :: "jsval \<Rightarrow> bool" where
  "carriesIdentity n =
     (\<not> nullish (lookup (lookup n ''deviceInfo'') ''deviceIdentifier'') \<and>
      \<not> nullish (lookup (lookup n ''deviceInfo'') ''productIdentifier'') \<and>
      \<not> nullish (lookup n ''notificationInfo'') \<and>
      \<not> nullish (lookup n ''customerInfo''))"

definition notificationTypeOf :: "jsval \<Rightarrow> jsval" where
  "notificationTypeOf n = lookup (lookup n ''notificationInfo'') ''notificationType''"

definition orderTypes :: "string list" where
  "orderTypes =
     [''ItemShippedNotification'', ''OrderCancelledNotification'', ''OrderPlacedNotification'']"

text \<open>
  A complete notification carries its identity and, when it is of an order type,
  an \<^verbatim>\<open>orderInfo\<close> object.
\<close>

definition completeNotification :: "jsval \<Rightarrow> bool" where
  "completeNotification n =
     (carriesIdentity n \<and>
      (notificationTypeOf n \<in> JStr ` set orderTypes \<longrightarrow> \<not> nullish (lookup n ''orderInfo'')))"

definition knownType :: "jsval \<Rightarrow> bool" where
  "knownType n = (notificationTypeOf n \<in> JStr ` set knownMessageTypes)"

text \<open>
  The dispatch table of the specification: notification type, name of its handler,
  and the field of the handler set that holds it.
\<close>

definition handlerTable :: "(string \<times> string \<times> (IHandlers \<Rightarrow> bool)) list" where
  "handlerTable =
     [(''DeviceDeregisteredNotification'', ''onDeviceDeregistered'', onDeviceDeregistered),
      (''DeviceRegisteredNotification'', ''onDeviceRegistered'', onDeviceRegistered),
      (''ItemShippedNotification'', ''onItemShippedNotification'', onItemShippedNotification),
      (''OrderCancelledNotification'', ''onOrderCancelled'', onOrderCancelled),
      (''OrderPlacedNotification'', ''onOrderPlaced'', onOrderPlaced),
      (''SubscriptionChangedNotification'', ''onSubscriptionChanged'', onSubscriptionChanged)]"

text \<open>The three kinds of action the invariant of the specification counts.\<close>

fun isHandlerCall :: "action \<Rightarrow> bool" where
  "isHandlerCall (Call_onNonDRSMessage e) = True"
| "isHandlerCall (Call_onDeviceDeregistered c m s r) = True"
| "isHandlerCall (Call_onDeviceRegistered c m s r) = True"
| "isHandlerCall (Call_onItemShippedNotification c m s i r) = True"
| "isHandlerCall (Call_onOrderCancelled c m s i r) = True"
| "isHandlerCall (Call_onOrderPlaced c m s i r) = True"
| "isHandlerCall (Call_onSubscriptionChanged c m s i r) = True"
| "isHandlerCall a = False"

fun isErrorReport :: "action \<Rightarrow> bool" where
  "isErrorReport (Call_onError e) = True"
| "isErrorReport a = False"

fun isConfirmation :: "action \<Rightarrow> bool" where
  "isConfirmation (Request url) = True"
| "isConfirmation a = False"

text \<open>
  Exactly one terminal action, read off the whole trace: the call does one handler
  invocation and nothing else, or one error report and nothing else, or, for a
  confirmation envelope, one confirmation attempt followed by nothing or by the
  one error report its outcome brings. An uncaught TypeError, a second report or
  any further action makes the trace fail.
\<close>

definition oneTerminalAction :: "IBodySNS \<Rightarrow> action list \<Rightarrow> bool" where
  "oneTerminalAction parsed trace =
     (case trace of
        [] \<Rightarrow> False
      | a # rest \<Rightarrow>
          (case rest of
             [] \<Rightarrow> isHandlerCall a \<or> isErrorReport a \<or>
                   Type parsed = ''SubscriptionConfirmation'' \<and> isConfirmation a
           | b # others \<Rightarrow> Type parsed = ''SubscriptionConfirmation'' \<and> isConfirmation a \<and>
                   isErrorReport b \<and> others = []))"

text \<open>
  The failures of the specification's error table (section 7), as conditions on
  the input: the code an input calls for, or \<open>None\<close> when it calls for none.
  A confirmation call fails here when its response has a status other than 200,
  and a type is unknown here when the payload carries it at its top level; a
  handler is missing when the type is in the dispatch table and its handler is
  not supplied.
\<close>

definition handlerMissing :: "IHandlers \<Rightarrow> jsval \<Rightarrow> bool" where
  "handlerMissing handlers t =
     list_ex (\<lambda>(ty, name, supplied). t = JStr ty \<and> \<not> supplied handlers) handlerTable"

definition failureOf ::
  "(string \<Rightarrow> jsval + jsval) \<Rightarrow> (string \<Rightarrow> jsval \<times> jsval \<times> jsval) \<Rightarrow>
   jsval \<Rightarrow> IBodySNS \<Rightarrow> IHandlers \<Rightarrow> string option"
where
  "failureOf JSON_parse request err parsed handlers =
     (if truthy err then Some ''invalid_signature''
      else if Type parsed = ''SubscriptionConfirmation'' then
        (case SubscribeURL parsed of
           None \<Rightarrow> Some ''invalid_subscription_request''
         | Some url \<Rightarrow>
             if url = [] then Some ''invalid_subscription_request''
             else if lookup (fst (snd (request url))) ''statusCode'' \<noteq> JNum 200
               then Some ''invalid_subscription_request_response''
               else None)
      else
        (case JSON_parse (Message parsed) of
           Inl er \<Rightarrow> Some ''invalid_json''
         | Inr payload \<Rightarrow>
             (case find (\<lambda>k. guardHolds payload k ''deviceInfo'') transportKeys of
                Some k \<Rightarrow>
                  if handlerMissing handlers (notificationTypeOf (lookup payload k))
                  then Some ''missing_handler'' else None
              | None \<Rightarrow>
                  if guardHolds payload ''notificationInfo'' ''notificationType'' then
                    (if \<not> knownType payload then Some ''unknown_message''
                     else if handlerMissing handlers (notificationTypeOf payload)
                       then Some ''missing_handler'' else None)
                  else if onNonDRSMessage handlers then None
                  else Some ''not_drs'')))"

section \<open>Example inputs\<close>

definition envelope :: "string \<Rightarrow> string \<Rightarrow> string option \<Rightarrow> IBodySNS" where
  "envelope ty msg url = \<lparr>
     Type = ty, MessageId = ''m-1'', TopicArn = ''arn:aws:sns:drs'', Subject = ''drs'',
     Message = msg, Timestamp = ''2018-01-01T00:00:00Z'', SignatureVersion = ''1'',
     Signature = ''c2ln'', SigningCertURL = ''https://sns/cert.pem'',
     UnsubscribeURL = ''https://sns/unsubscribe'', SubscribeURL = url \<rparr>"

definition handlersWith :: "bool \<Rightarrow> bool \<Rightarrow> IHandlers" where
  "handlersWith domain nonDRS = \<lparr>
     onError = True, onOnlyValidateMessage = False, onNonDRSMessage = nonDRS,
     onDeviceDeregistered = domain, onDeviceRegistered = domain,
     onItemShippedNotification = domain, onOrderCancelled = domain,
     onOrderPlaced = domain, onSubscriptionChanged = domain \<rparr>"

text \<open>The notification of the specification's scenario, with the type left open.\<close>

definition notification :: "string \<Rightarrow> jsval" where
  "notification ty = JObj
     [(''notificationInfo'', JObj [(''notificationType'', JStr ty)]),
      (''deviceInfo'', JObj
         [(''deviceIdentifier'', JObj [(''serialNumber'', JStr ''S1'')]),
          (''productIdentifier'', JObj [(''modelId'', JStr ''M1'')])]),
      (''customerInfo'', JObj [(''directedCustomerId'', JStr ''C1'')]),
      (''orderInfo'', JObj
         [(''instanceId'', JStr ''I1''), (''slotId'', JStr ''SL1''),
          (''productInfo'', JArr [JObj [(''asin'', JStr ''A1'')]])])]"



definition greeting :: jsval where
  "greeting = JObj [(''greeting'', JStr ''hello'')]"

text \<open>
  Two payloads of a known type that lack what extraction reads: one has only its
  \<open>notificationInfo\<close>, the other has no \<open>customerInfo\<close>.
\<close>

definition bare :: jsval where
  "bare = JObj
     [(''notificationInfo'', JObj [(''notificationType'', JStr ''OrderPlacedNotification'')])]"

definition anonymous :: jsval where
  "anonymous = JObj
     [(''notificationInfo'', JObj [(''notificationType'', JStr ''DeviceRegisteredNotification'')]),
      (''deviceInfo'', JObj
         [(''deviceIdentifier'', JObj [(''serialNumber'', JStr ''S1'')]),
          (''productIdentifier'', JObj [(''modelId'', JStr ''M1'')])])]"

text \<open>The error object of a failed verification.\<close>

definition signatureError :: jsval where
  "signatureError = JObj [(''message'', JStr ''The message signature is invalid.'')]"

text \<open>An HTTP client that answers every GET with the given status.\<close>

definition respondWith :: "int \<Rightarrow> string \<Rightarrow> jsval \<times> jsval \<times> jsval" where
  "respondWith status url = (JNull, JObj [(''statusCode'', JNum status)], JStr ''body'')"

text \<open>An HTTP client whose GET fails: the callback gets the error alone.\<close>

definition transportFailure :: "string \<Rightarrow> jsval \<times> jsval \<times> jsval" where
  "transportFailure url = (JObj [(''code'', JStr ''ECONNREFUSED'')], JUndefined, JUndefined)"

section \<open>Property access and guards\<close>

lemmas eval_defs =
  receiveRequest_def unwrapMessage_def andProp_def extractFields_def dispatch_def
  orThrow_def reportMissing_def callOnError_def confirmCallback_def orderInfoOf_def
  cancelledOrderInfoOf_def subscriptionStatusOf_def orElse_def missingHandlerError_def
  errorCodes_def indexOf_def knownMessageTypes_def

lemmas example_defs = envelope_def handlersWith_def notification_def

lemma getProp_None_iff: "getProp v k = None \<longleftrightarrow> nullish v"
  by (cases v) (simp_all add: nullish_def)

lemma truthy_not_nullish: "truthy v \<Longrightarrow> \<not> nullish v"
  by (cases v) (simp_all add: nullish_def)

lemma getProp_truthy: "truthy v \<Longrightarrow> \<exists>x. getProp v k = Some x"
  using getProp_None_iff truthy_not_nullish by (cases "getProp v k") auto

lemma andProp_None_iff: "andProp v k1 k2 = None \<longleftrightarrow> nullish v"
proof (cases "getProp v k1")
  case None
  then show ?thesis using getProp_None_iff[of v k1] by (simp add: andProp_def)
next
  case (Some a)
  then have "\<not> nullish v" using getProp_None_iff[of v k1] by simp
  moreover have "andProp v k1 k2 \<noteq> None"
    using Some getProp_truthy[of a k2] by (auto simp: andProp_def)
  ultimately show ?thesis by simp
qed

lemma indexOfFrom_miss: "0 \<le> i \<Longrightarrow> indexOfFrom xs v i = - 1 \<longleftrightarrow> v \<notin> JStr ` set xs"
  by (induction xs arbitrary: i) auto

lemma indexOf_miss: "indexOf xs v = - 1 \<longleftrightarrow> v \<notin> JStr ` set xs"
  by (simp add: indexOf_def indexOfFrom_miss)

lemma andProp_cases:
  assumes "\<not> nullish v"
  obtains c where "andProp v k1 k2 = Some c" and "truthy c \<longleftrightarrow> guardHolds v k1 k2"
  using assms andProp_None_iff[of v k1 k2] by (cases "andProp v k1 k2") (auto simp: guardHolds_def)

lemma getProp_lookup: "\<not> nullish v \<Longrightarrow> getProp v k = Some (lookup v k)"
  using getProp_None_iff[of v k] by (cases "getProp v k") (auto simp: lookup_def)

lemma guardHolds_lookup:
  assumes "guardHolds v k1 k2"
  shows "truthy (lookup v k1) \<and> truthy (lookup (lookup v k1) k2) \<and> \<not> nullish v"
  using assms getProp_None_iff[of v k1]
  by (auto simp: guardHolds_def andProp_def lookup_def split: option.splits Option.bind_splits if_splits)

section \<open>Unwrapping and extraction\<close>

lemma unwrapMessage_cases:
  assumes "\<not> nullish payload"
  shows "unwrapMessage payload =
    (case find (\<lambda>k. guardHolds payload k ''deviceInfo'') transportKeys of
       Some k \<Rightarrow> Some (Proceed (lookup payload k))
     | None \<Rightarrow>
        if guardHolds payload ''notificationInfo'' ''notificationType'' then
          (if knownType payload then Some (Proceed payload)
           else Some (UnknownType (notificationTypeOf payload)))
        else Some NonDRS)"
proof -
  obtain c1 where c1: "andProp payload ''default'' ''deviceInfo'' = Some c1"
    "truthy c1 \<longleftrightarrow> guardHolds payload ''default'' ''deviceInfo''"
    using andProp_cases[OF assms] by blast
  obtain c2 where c2: "andProp payload ''email'' ''deviceInfo'' = Some c2"
    "truthy c2 \<longleftrightarrow> guardHolds payload ''email'' ''deviceInfo''"
    using andProp_cases[OF assms] by blast
  obtain c3 where c3: "andProp payload ''http'' ''deviceInfo'' = Some c3"
    "truthy c3 \<longleftrightarrow> guardHolds payload ''http'' ''deviceInfo''"
    using andProp_cases[OF assms] by blast
  obtain c4 where c4: "andProp payload ''https'' ''deviceInfo'' = Some c4"
    "truthy c4 \<longleftrightarrow> guardHolds payload ''https'' ''deviceInfo''"
    using andProp_cases[OF assms] by blast
  obtain c5 where c5: "andProp payload ''notificationInfo'' ''notificationType'' = Some c5"
    "truthy c5 \<longleftrightarrow> guardHolds payload ''notificationInfo'' ''notificationType''"
    using andProp_cases[OF assms] by blast
  have direct: "guardHolds payload ''notificationInfo'' ''notificationType'' \<Longrightarrow>
     getProp (lookup payload ''notificationInfo'') ''notificationType'' = Some (notificationTypeOf payload)"
    using guardHolds_lookup[of payload "''notificationInfo''" "''notificationType''"]
      getProp_lookup[of "lookup payload ''notificationInfo''" "''notificationType''"] truthy_not_nullish
    by (auto simp: notificationTypeOf_def)
  show ?thesis
    using c1 c2 c3 c4 c5 direct
    by (simp add: unwrapMessage_def getProp_lookup[OF assms] transportKeys_def knownType_def indexOf_miss)
qed

lemma lookup_nullish: "nullish v \<Longrightarrow> lookup v k = JUndefined"
  using getProp_None_iff[of v k] by (simp add: lookup_def)

lemma not_nullish_parent: "\<not> nullish (lookup v k) \<Longrightarrow> \<not> nullish v"
  using lookup_nullish[of v k] by (auto simp: nullish_def)

lemma getProp_Some_not_nullish: "getProp v k = Some x \<Longrightarrow> \<not> nullish v"
  using getProp_None_iff[of v k] by simp

lemma extractFields_None:
  assumes "\<not> carriesIdentity n"
  shows "extractFields n = None"
proof (cases "extractFields n")
  case None then show ?thesis .
next
  case (Some f)
  then have "carriesIdentity n"
    by (auto simp: extractFields_def carriesIdentity_def lookup_def split: Option.bind_splits
        dest: getProp_Some_not_nullish)
  with assms show ?thesis by simp
qed


lemma extractFields_complete:
  assumes "carriesIdentity n"
  shows "extractFields n =
     Some (lookup (lookup (lookup n ''deviceInfo'') ''deviceIdentifier'') ''serialNumber'',
           lookup (lookup (lookup n ''deviceInfo'') ''productIdentifier'') ''modelId'',
           notificationTypeOf n,
           lookup (lookup n ''customerInfo'') ''directedCustomerId'')"
proof -
  have a: "\<not> nullish (lookup (lookup n ''deviceInfo'') ''deviceIdentifier'')"
    and b: "\<not> nullish (lookup (lookup n ''deviceInfo'') ''productIdentifier'')"
    and c: "\<not> nullish (lookup n ''notificationInfo'')"
    and d: "\<not> nullish (lookup n ''customerInfo'')"
    using assms by (simp_all add: carriesIdentity_def)
  have di: "\<not> nullish (lookup n ''deviceInfo'')" using a not_nullish_parent by blast
  have n: "\<not> nullish n" using c not_nullish_parent by blast
  show ?thesis
    by (simp add: extractFields_def notificationTypeOf_def getProp_lookup[OF n]
        getProp_lookup[OF di] getProp_lookup[OF a] getProp_lookup[OF b] getProp_lookup[OF c]
        getProp_lookup[OF d])
qed

lemma extractFields_type:
  assumes "extractFields n = Some (s, m, t, c)"
  shows "t = notificationTypeOf n"
  using assms
  by (auto simp: extractFields_def notificationTypeOf_def lookup_def split: Option.bind_splits)

lemma handlerTable_cases:
  assumes "(ty, name, supplied) \<in> set handlerTable" 
  shows "ty = ''DeviceDeregisteredNotification'' \<and> name = ''onDeviceDeregistered'' \<and> supplied = onDeviceDeregistered
    \<or> ty = ''DeviceRegisteredNotification'' \<and> name = ''onDeviceRegistered'' \<and> supplied = onDeviceRegistered
    \<or> ty = ''ItemShippedNotification'' \<and> name = ''onItemShippedNotification'' \<and> supplied = onItemShippedNotification
    \<or> ty = ''OrderCancelledNotification'' \<and> name = ''onOrderCancelled'' \<and> supplied = onOrderCancelled
    \<or> ty = ''OrderPlacedNotification'' \<and> name = ''onOrderPlaced'' \<and> supplied = onOrderPlaced
    \<or> ty = ''SubscriptionChangedNotification'' \<and> name = ''onSubscriptionChanged'' \<and> supplied = onSubscriptionChanged"
  using assms unfolding handlerTable_def by simp

lemma dispatch_missing:
  assumes "(ty, name, supplied) \<in> set handlerTable" and "\<not> supplied handlers"
    and "onError handlers"
  shows "dispatch handlers store n (s, m, JStr ty, c) =
     ([Call_onError \<lparr> reason = ''missing the handler to handle that notification'',
         code = ''missing_handler'',
         raw = RawValue (JObj [(''handler'', JStr name)]) \<rparr>], name)"
  using handlerTable_cases[OF assms(1)] assms(2,3)
  by (elim disjE conjE)
     (simp_all add: dispatch_def reportMissing_def callOnError_def missingHandlerError_def
        errorCodes_def)

lemma unwrapMessage_total: "\<not> nullish payload \<Longrightarrow> \<exists>u. unwrapMessage payload = Some u"
  using andProp_None_iff  unwrapMessage_cases[of payload]
  by (simp split: option.splits if_splits)

lemma carriesIdentity_not_nullish: "carriesIdentity n \<Longrightarrow> \<not> nullish n"
  using not_nullish_parent[of n "''notificationInfo''"] by (simp add: carriesIdentity_def)

lemma receiveRequest_proceed:
  assumes "\<not> truthy err" and "Type parsed \<noteq> ''SubscriptionConfirmation''"
    and "JSON_parse (Message parsed) = Inr payload"
    and "unwrapMessage payload = Some (Proceed n)"
    and "carriesIdentity n"
  shows "receiveRequest JSON_parse request err parsed handlers store =
           dispatch handlers store n
             (lookup (lookup (lookup n ''deviceInfo'') ''deviceIdentifier'') ''serialNumber'',
              lookup (lookup (lookup n ''deviceInfo'') ''productIdentifier'') ''modelId'',
              notificationTypeOf n,
              lookup (lookup n ''customerInfo'') ''directedCustomerId'')"
  using assms(1-4) extractFields_complete[OF assms(5)] by (simp add: receiveRequest_def)

section \<open>Dispatch and confirmation\<close>

lemma orderInfoOf_total:
  "\<not> nullish (lookup n ''orderInfo'') \<Longrightarrow> \<exists>oi. orderInfoOf n = Some oi"
  using not_nullish_parent[of n "''orderInfo''"]
  by (simp add: orderInfoOf_def getProp_lookup)

lemma cancelledOrderInfoOf_total:
  "\<not> nullish (lookup n ''orderInfo'') \<Longrightarrow> \<exists>oi. cancelledOrderInfoOf n = Some oi"
  using not_nullish_parent[of n "''orderInfo''"]
  by (simp add: cancelledOrderInfoOf_def getProp_lookup)

lemma subscriptionStatusOf_total:
  "\<not> nullish n \<Longrightarrow> \<exists>x. subscriptionStatusOf n = Some x"
  using getProp_truthy[of "lookup n ''subscriptionInfo''" "''slotsSubscriptionStatus''"]
  by (auto simp: subscriptionStatusOf_def getProp_lookup orElse_def)

lemma callOnError_supplied: "onError handlers \<Longrightarrow> callOnError handlers e = [Call_onError e]"
  by (simp add: callOnError_def)

lemma dispatch_known:
  assumes "onError handlers" and "\<not> nullish n"
    and "t \<in> JStr ` set orderTypes \<longrightarrow> \<not> nullish (lookup n ''orderInfo'')"
    and "t \<in> JStr ` set knownMessageTypes"
  shows "\<exists>a. fst (dispatch handlers store n (s, m, t, c)) = [a] \<and>
             (isHandlerCall a \<or> isErrorReport a)"
proof -
  have "t = JStr ''DeviceDeregisteredNotification'' \<or> t = JStr ''DeviceRegisteredNotification'' \<or>
        t = JStr ''ItemShippedNotification'' \<or> t = JStr ''OrderCancelledNotification'' \<or>
        t = JStr ''OrderPlacedNotification'' \<or> t = JStr ''SubscriptionChangedNotification''"
    using assms(4) by (simp add: knownMessageTypes_def image_iff)
  then show ?thesis
  proof (elim disjE, goal_cases)
    case 1
    then show ?thesis using assms(1)
      by (simp add: dispatch_def reportMissing_def callOnError_supplied)
  next
    case 2
    then show ?thesis using assms(1)
      by (simp add: dispatch_def reportMissing_def callOnError_supplied)
  next
    case 3
    then have "\<not> nullish (lookup n ''orderInfo'')" using assms(3) by (simp add: orderTypes_def)
    then obtain oi where "orderInfoOf n = Some oi" using orderInfoOf_total by blast
    then show ?thesis using 3 assms(1)
      by (simp add: dispatch_def reportMissing_def callOnError_supplied orThrow_def)
  next
    case 4
    then have "\<not> nullish (lookup n ''orderInfo'')" using assms(3) by (simp add: orderTypes_def)
    then obtain oi where "cancelledOrderInfoOf n = Some oi"
      using cancelledOrderInfoOf_total by blast
    then show ?thesis using 4 assms(1)
      by (simp add: dispatch_def reportMissing_def callOnError_supplied orThrow_def)
  next
    case 5
    then have "\<not> nullish (lookup n ''orderInfo'')" using assms(3) by (simp add: orderTypes_def)
    then obtain oi where "orderInfoOf n = Some oi" using orderInfoOf_total by blast
    then show ?thesis using 5 assms(1)
      by (simp add: dispatch_def reportMissing_def callOnError_supplied orThrow_def)
  next
    case 6
    obtain x where "subscriptionStatusOf n = Some x"
      using subscriptionStatusOf_total[OF assms(2)] by blast
    then show ?thesis using 6 assms(1)
      by (simp add: dispatch_def reportMissing_def callOnError_supplied orThrow_def)
  qed
qed

lemma dispatch_unknown:
  assumes "t \<notin> JStr ` set knownMessageTypes"
  shows "dispatch handlers store n (s, m, t, c) = ([], store)"
  using assms by (simp add: dispatch_def knownMessageTypes_def)

lemma terminal_not_TypeError: "isHandlerCall a \<or> isErrorReport a \<Longrightarrow> a \<noteq> TypeError"
  by auto

lemma dispatch_no_throw:
  assumes "onError handlers" and "\<not> nullish n"
    and "t \<in> JStr ` set orderTypes \<longrightarrow> \<not> nullish (lookup n ''orderInfo'')"
  shows "TypeError \<notin> set (fst (dispatch handlers store n (s, m, t, c)))"
proof (cases "t \<in> JStr ` set knownMessageTypes")
  case True
  from dispatch_known[OF assms True, of store s m c] show ?thesis
    using terminal_not_TypeError by auto
next
  case False
  then show ?thesis by (simp add: dispatch_unknown)
qed

lemma confirmCallback_shape:
  assumes "onError handlers" and "\<not> nullish (fst (snd r))"
  shows "confirmCallback handlers err r = [] \<or>
         (\<exists>e. confirmCallback handlers err r = [Call_onError e])"
  using assms
  by (cases r) (simp add: confirmCallback_def callOnError_supplied Let_def getProp_lookup)

lemma confirmCallback_no_throw:
  assumes "onError handlers" and "\<not> nullish (fst (snd r))"
  shows "TypeError \<notin> set (confirmCallback handlers err r)"
  using assms
  by (cases r) (simp add: confirmCallback_def callOnError_supplied Let_def getProp_lookup)

lemma single_terminal:
  assumes "isHandlerCall a \<or> isErrorReport a"
  shows "oneTerminalAction parsed [a]"
  using assms by (auto simp: oneTerminalAction_def)

lemma confirmation_terminal:
  assumes "Type parsed = ''SubscriptionConfirmation''"
    and "rest = [] \<or> (\<exists>e. rest = [Call_onError e])"
  shows "oneTerminalAction parsed (Request url # rest)"
  using assms by (auto simp: oneTerminalAction_def)

section \<open>Verification failure\<close>

text \<open>
  Claim C5. When the verifier reports a failure (a truthy error, whatever it is),
  \<open>receiveRequest\<close> does one thing: it calls \<open>onError\<close> once with the code
  \<open>invalid_signature\<close> and the verifier's error as raw context. No handler is
  invoked, nothing is requested, the store is untouched.
\<close>

theorem receiveRequest_invalid_signature:
  assumes "truthy err" and "onError handlers"
  shows "receiveRequest JSON_parse request err parsed handlers store =
     ([Call_onError \<lparr> reason = ''invalid signature for the incoming message'',
         code = ''invalid_signature'', raw = RawValue err \<rparr>], store)"
  using assms by (simp add: receiveRequest_def callOnError_def errorCodes_def)

theorem receiveRequest_invalid_signature_witness:
  "truthy signatureError \<and> onError (handlersWith True True) \<and>
   receiveRequest (\<lambda>m. Inr (notification ''OrderPlacedNotification'')) (respondWith 200)
     signatureError (envelope ''Notification'' ''{}'' None) (handlersWith True True) [] =
     ([Call_onError \<lparr> reason = ''invalid signature for the incoming message'',
         code = ''invalid_signature'', raw = RawValue signatureError \<rparr>], [])"
proof -
  have t: "truthy signatureError" by (simp add: signatureError_def)
  have h: "onError (handlersWith True True)" by (simp add: handlersWith_def)
  show ?thesis using t h receiveRequest_invalid_signature[OF t h] by simp
qed

section \<open>Validation only\<close>

text \<open>
  Claim C10. \<open>validate\<close> called with a handler set that has no
  \<open>onOnlyValidateMessage\<close> and with no plain callback, on a message the verifier
  accepts: no callback of any kind is invoked and no promise is returned.
\<close>

theorem validate_silent:
  assumes "\<not> truthy err" and "\<not> onOnlyValidateMessage handlers"
  shows "validate err parsed message (Some handlers) False = (False, [])"
  using assms by (simp add: validate_def)

theorem validate_silent_witness:
  "\<not> truthy JNull \<and> \<not> onOnlyValidateMessage (handlersWith True True) \<and>
   validate JNull (Some (envelope ''Notification'' ''{}'' None)) (JStr ''{}'')
     (Some (handlersWith True True)) False = (False, [])"
proof -
  have t: "\<not> truthy JNull" by simp
  have h: "\<not> onOnlyValidateMessage (handlersWith True True)" by (simp add: handlersWith_def)
  show ?thesis using t h validate_silent[OF t h] by simp
qed

section \<open>Cancelled orders\<close>







section \<open>Missing handlers\<close>

text \<open>
  Claim C7, amended. Let the unwrapper go on with a notification whose type is one
  of the six known ones and that carries its identity
  (\<open>deviceInfo.deviceIdentifier\<close>, \<open>deviceInfo.productIdentifier\<close>,
  \<open>notificationInfo\<close>, \<open>customerInfo\<close>). When the handler of that type is not
  supplied, \<open>receiveRequest\<close> calls \<open>onError\<close> once, with the code
  \<open>missing_handler\<close> and a raw context whose \<open>handler\<close> field is the name of the
  absent handler; the shared template then holds that name.
\<close>

theorem receiveRequest_missing_handler:
  assumes "\<not> truthy err" and "Type parsed \<noteq> ''SubscriptionConfirmation''"
    and "JSON_parse (Message parsed) = Inr payload"
    and "unwrapMessage payload = Some (Proceed n)"
    and "carriesIdentity n" and "notificationTypeOf n = JStr ty"
    and "(ty, name, supplied) \<in> set handlerTable" and "\<not> supplied handlers"
    and "onError handlers"
  shows "receiveRequest JSON_parse request err parsed handlers store =
     ([Call_onError \<lparr> reason = ''missing the handler to handle that notification'',
         code = ''missing_handler'',
         raw = RawValue (JObj [(''handler'', JStr name)]) \<rparr>], name)"
proof -
  have "receiveRequest JSON_parse request err parsed handlers store =
     dispatch handlers store n
       (lookup (lookup (lookup n ''deviceInfo'') ''deviceIdentifier'') ''serialNumber'',
        lookup (lookup (lookup n ''deviceInfo'') ''productIdentifier'') ''modelId'',
        JStr ty,
        lookup (lookup n ''customerInfo'') ''directedCustomerId'')"
    using assms(1-4,6) extractFields_complete[OF assms(5)]
    by (simp add: receiveRequest_def)
  then show ?thesis using dispatch_missing[OF assms(7-9)] by simp
qed

theorem receiveRequest_missing_handler_witness:
  "\<not> truthy JNull \<and>
   Type (envelope ''Notification'' ''{}'' None) \<noteq> ''SubscriptionConfirmation'' \<and>
   unwrapMessage (notification ''OrderPlacedNotification'') =
     Some (Proceed (notification ''OrderPlacedNotification'')) \<and>
   carriesIdentity (notification ''OrderPlacedNotification'') \<and>
   notificationTypeOf (notification ''OrderPlacedNotification'') =
     JStr ''OrderPlacedNotification'' \<and>
   (''OrderPlacedNotification'', ''onOrderPlaced'', onOrderPlaced) \<in> set handlerTable \<and>
   \<not> onOrderPlaced (handlersWith False True) \<and>
   onError (handlersWith False True) \<and>
   receiveRequest (\<lambda>m. Inr (notification ''OrderPlacedNotification'')) (respondWith 200) JNull
     (envelope ''Notification'' ''{}'' None) (handlersWith False True) [] =
     ([Call_onError \<lparr> reason = ''missing the handler to handle that notification'',
         code = ''missing_handler'',
         raw = RawValue (JObj [(''handler'', JStr ''onOrderPlaced'')]) \<rparr>],
      ''onOrderPlaced'')"
proof -
  have 1: "\<not> truthy JNull" by simp
  have 2: "Type (envelope ''Notification'' ''{}'' None) \<noteq> ''SubscriptionConfirmation''"
    by (simp add: envelope_def)
  have 3: "(\<lambda>m. Inr (notification ''OrderPlacedNotification''))
             (Message (envelope ''Notification'' ''{}'' None)) =
           (Inr (notification ''OrderPlacedNotification'') :: jsval + jsval)"
    by simp
  have 4: "unwrapMessage (notification ''OrderPlacedNotification'') =
     Some (Proceed (notification ''OrderPlacedNotification''))"
    by (simp add: eval_defs example_defs)
  have 5: "carriesIdentity (notification ''OrderPlacedNotification'')"
    by (simp add: carriesIdentity_def lookup_def notification_def nullish_def)
  have 6: "notificationTypeOf (notification ''OrderPlacedNotification'') =
     JStr ''OrderPlacedNotification''"
    by (simp add: notificationTypeOf_def lookup_def notification_def)
  have 7: "(''OrderPlacedNotification'', ''onOrderPlaced'', onOrderPlaced) \<in> set handlerTable"
    by (simp add: handlerTable_def)
  have 8: "\<not> onOrderPlaced (handlersWith False True)" by (simp add: handlersWith_def)
  have 9: "onError (handlersWith False True)" by (simp add: handlersWith_def)
  show ?thesis
    using 1 2 4 5 6 7 8 9 receiveRequest_missing_handler[OF 1 2 3 4 5 6 7 8 9]
    by simp
qed

text \<open>
  As first stated, for every classified notification: a payload that has only its
  \<open>notificationInfo\<close> is classified as an \<open>OrderPlacedNotification\<close>, and with
  \<open>onOrderPlaced\<close> absent the extraction of line 203 raises a TypeError before
  the handler set is consulted: no \<open>missing_handler\<close> is reported.
\<close>

theorem receiveRequest_missing_handler_unreported:
  "unwrapMessage bare = Some (Proceed bare) \<and>
   knownType bare \<and>
   notificationTypeOf bare = JStr ''OrderPlacedNotification'' \<and>
   \<not> onOrderPlaced (handlersWith False True) \<and>
   onError (handlersWith False True) \<and>
   receiveRequest (\<lambda>m. Inr bare) (respondWith 200) JNull
     (envelope ''Notification'' ''{}'' None) (handlersWith False True) [] =
     ([TypeError], [])"
  by (simp add: eval_defs example_defs bare_def knownType_def notificationTypeOf_def lookup_def)

section \<open>Transport keys\<close>



section \<open>Payloads that are no notification\<close>

text \<open>
  Claim C8, amended. Take a verified envelope that is no confirmation and whose
  payload is neither \<open>null\<close> nor \<open>undefined\<close>, carries \<open>deviceInfo\<close> under none of
  the four transport keys and has no \<open>notificationInfo.notificationType\<close>. Then
  \<open>receiveRequest\<close> calls \<open>onNonDRSMessage\<close> with the verified envelope when that
  handler is supplied, and otherwise calls \<open>onError\<close> with the code \<open>not_drs\<close>
  and the verified envelope as raw context; it does nothing else.
\<close>

theorem receiveRequest_non_drs_fallback:
  assumes "\<not> truthy err" and "Type parsed \<noteq> ''SubscriptionConfirmation''"
    and "JSON_parse (Message parsed) = Inr payload"
    and "\<not> nullish payload"
    and "\<forall>k \<in> set transportKeys. \<not> guardHolds payload k ''deviceInfo''"
    and "\<not> guardHolds payload ''notificationInfo'' ''notificationType''"
    and "onError handlers"
  shows "receiveRequest JSON_parse request err parsed handlers store =
     (if onNonDRSMessage handlers then [Call_onNonDRSMessage parsed]
      else [Call_onError \<lparr> reason =
              ''this is not a DRS message, we placed it back into the raw property'',
              code = ''not_drs'', raw = RawEnvelope parsed \<rparr>], store)"
proof -
  have "find (\<lambda>k. guardHolds payload k ''deviceInfo'') transportKeys = None"
    using assms(5) by (simp add: find_None_iff)
  then have "unwrapMessage payload = Some NonDRS"
    using unwrapMessage_cases[OF assms(4)] assms(6) by simp
  then show ?thesis
    using assms(1-3,7) by (simp add: receiveRequest_def callOnError_def errorCodes_def)
qed

theorem receiveRequest_non_drs_fallback_witness:
  "\<not> nullish greeting \<and>
   \<not> guardHolds greeting ''default'' ''deviceInfo'' \<and>
   \<not> guardHolds greeting ''email'' ''deviceInfo'' \<and>
   \<not> guardHolds greeting ''http'' ''deviceInfo'' \<and>
   \<not> guardHolds greeting ''https'' ''deviceInfo'' \<and>
   \<not> guardHolds greeting ''notificationInfo'' ''notificationType'' \<and>
   receiveRequest (\<lambda>m. Inr greeting) (respondWith 200) JNull
     (envelope ''Notification'' ''{}'' None) (handlersWith True True) [] =
     ([Call_onNonDRSMessage (envelope ''Notification'' ''{}'' None)], []) \<and>
   receiveRequest (\<lambda>m. Inr greeting) (respondWith 200) JNull
     (envelope ''Notification'' ''{}'' None) (handlersWith True False) [] =
     ([Call_onError \<lparr> reason =
         ''this is not a DRS message, we placed it back into the raw property'',
         code = ''not_drs'', raw = RawEnvelope (envelope ''Notification'' ''{}'' None) \<rparr>], [])"
proof -
  have 1: "\<not> truthy JNull" by simp
  have 2: "Type (envelope ''Notification'' ''{}'' None) \<noteq> ''SubscriptionConfirmation''"
    by (simp add: envelope_def)
  have 3: "(\<lambda>m. Inr greeting) (Message (envelope ''Notification'' ''{}'' None)) =
           (Inr greeting :: jsval + jsval)"
    by simp
  have 4: "\<not> nullish greeting" by (simp add: nullish_def greeting_def)
  have 5: "\<forall>k \<in> set transportKeys. \<not> guardHolds greeting k ''deviceInfo''"
    by (simp add: transportKeys_def guardHolds_def andProp_def greeting_def)
  have 6: "\<not> guardHolds greeting ''notificationInfo'' ''notificationType''"
    by (simp add: guardHolds_def andProp_def greeting_def)
  have 7: "onError (handlersWith True True)" "onError (handlersWith True False)"
    by (simp_all add: handlersWith_def)
  have 8: "onNonDRSMessage (handlersWith True True)" "\<not> onNonDRSMessage (handlersWith True False)"
    by (simp_all add: handlersWith_def)
  show ?thesis
    using 4 5 6 8
      receiveRequest_non_drs_fallback[OF 1 2 3 4 5 6 7(1), of "respondWith 200" "[]"]
      receiveRequest_non_drs_fallback[OF 1 2 3 4 5 6 7(2), of "respondWith 200" "[]"]
    by (simp add: transportKeys_def)
qed

text \<open>
  As first stated, for every payload: a payload of \<open>null\<close> carries nothing under any
  key, and on it the first guard of the unwrapper raises a TypeError; neither
  \<open>onNonDRSMessage\<close> nor \<open>onError\<close> is called.
\<close>

theorem receiveRequest_null_payload_unreported:
  "\<not> guardHolds JNull ''default'' ''deviceInfo'' \<and>
   \<not> guardHolds JNull ''email'' ''deviceInfo'' \<and>
   \<not> guardHolds JNull ''http'' ''deviceInfo'' \<and>
   \<not> guardHolds JNull ''https'' ''deviceInfo'' \<and>
   \<not> guardHolds JNull ''notificationInfo'' ''notificationType'' \<and>
   receiveRequest (\<lambda>m. Inr JNull) (respondWith 200) JNull
     (envelope ''Notification'' ''null'' None) (handlersWith True True) [] =
     ([TypeError], [])"
  by (simp add: guardHolds_def eval_defs example_defs)

section \<open>Unknown notification types\<close>

text \<open>
  Claim C3, at an input where the code departs from it: a notification of the
  unknown type \<open>FooBar\<close> under the transport key \<open>default\<close>. The unwrapper
  selects it without consulting the known types, the four fields are extracted,
  and the chain over the type falls through: no error is reported and no handler
  is invoked.
\<close>

theorem receiveRequest_nested_unknown_type:
  "receiveRequest (\<lambda>m. Inr (JObj [(''default'', notification ''FooBar'')])) (respondWith 200)
     JNull (envelope ''Notification'' ''{}'' None) (handlersWith True True) [] = ([], [])"
  by (simp add: eval_defs example_defs)

text \<open>
  The same type at the top level of the payload is reported: when no transport key
  carries \<open>deviceInfo\<close> and the payload's own \<open>notificationInfo.notificationType\<close>
  is truthy and not a known type, \<open>onError\<close> gets \<open>unknown_message\<close> with that
  value.
\<close>

lemma receiveRequest_unknown_type_top_level:
  assumes "\<not> truthy err" and "Type parsed \<noteq> ''SubscriptionConfirmation''"
    and "JSON_parse (Message parsed) = Inr payload"
    and "\<forall>k \<in> set transportKeys. \<not> guardHolds payload k ''deviceInfo''"
    and "guardHolds payload ''notificationInfo'' ''notificationType''"
    and "\<not> knownType payload"
    and "onError handlers"
  shows "receiveRequest JSON_parse request err parsed handlers store =
     ([Call_onError \<lparr> reason = ''unknown message type received'',
         code = ''unknown_message'',
         raw = RawValue (JObj [(''message'', notificationTypeOf payload)]) \<rparr>], store)"
proof -
  have nn: "\<not> nullish payload" using assms(5) guardHolds_lookup by blast
  have "find (\<lambda>k. guardHolds payload k ''deviceInfo'') transportKeys = None"
    using assms(4) by (simp add: find_None_iff)
  then have "unwrapMessage payload = Some (UnknownType (notificationTypeOf payload))"
    using unwrapMessage_cases[OF nn] assms(5,6) by simp
  then show ?thesis
    using assms(1-3,7) by (simp add: receiveRequest_def callOnError_def errorCodes_def)
qed

section \<open>Subscription confirmation\<close>

text \<open>
  Claim C4, at an input where the code departs from it: a verified confirmation
  envelope with a confirmation URL, and an HTTP client whose GET fails, so that
  its callback gets the error and no response. The guard reads the verifier's
  \<open>err\<close> (which is \<open>null\<close>) instead of \<open>confirmErr\<close>, goes on to
  \<open>confirmResponse.statusCode\<close> and raises a TypeError: nothing is reported.
\<close>

theorem receiveRequest_confirmation_transport_failure:
  "receiveRequest (\<lambda>m. Inr JNull) transportFailure JNull
     (envelope ''SubscriptionConfirmation'' ''confirm'' (Some ''https://sns/confirm''))
     (handlersWith True True) [] =
     ([Request ''https://sns/confirm'', TypeError], [])"
  by (simp add: eval_defs example_defs transportFailure_def)

text \<open>A response with a status other than 200 is reported, with all three values.\<close>

lemma receiveRequest_confirmation_bad_status:
  assumes "\<not> truthy err" and "Type parsed = ''SubscriptionConfirmation''"
    and "SubscribeURL parsed = Some url" and "url \<noteq> []"
    and "request url = (confirmErr, confirmResponse, confirmBody)"
    and "\<not> nullish confirmResponse" and "lookup confirmResponse ''statusCode'' \<noteq> JNum 200"
    and "onError handlers"
  shows "receiveRequest JSON_parse request err parsed handlers store =
     ([Request url,
       Call_onError \<lparr> reason = ''could not confirm the subscription due to a remote error'',
         code = ''invalid_subscription_request_response'',
         raw = RawValue (JObj [(''err'', confirmErr), (''resp'', confirmResponse),
                               (''body'', confirmBody)]) \<rparr>], store)"
  using assms getProp_lookup[OF assms(6), of "''statusCode''"]
  by (simp add: receiveRequest_def confirmCallback_def callOnError_def errorCodes_def Let_def)

section \<open>Exceptions and error reports\<close>

lemma no_TypeError:
  assumes h: "onError handlers"
    and conf: "\<And>url. Type parsed = ''SubscriptionConfirmation'' \<Longrightarrow>
                 SubscribeURL parsed = Some url \<Longrightarrow> \<not> nullish (fst (snd (request url)))"
    and pay: "\<And>payload. JSON_parse (Message parsed) = Inr payload \<Longrightarrow> \<not> nullish payload"
    and whole: "\<And>payload n. JSON_parse (Message parsed) = Inr payload \<Longrightarrow>
                 unwrapMessage payload = Some (Proceed n) \<Longrightarrow> completeNotification n"
  shows "TypeError \<notin> set (fst (receiveRequest JSON_parse request err parsed handlers store))"
proof (cases "truthy err")
  case True
  then show ?thesis using h by (simp add: receiveRequest_def callOnError_supplied)
next
  case verified: False
  show ?thesis
  proof (cases "Type parsed = ''SubscriptionConfirmation''")
    case True
    show ?thesis
    proof (cases "SubscribeURL parsed")
      case None
      then show ?thesis
        using verified True h by (simp add: receiveRequest_def callOnError_supplied)
    next
      case (Some url)
      have "TypeError \<notin> set (confirmCallback handlers err (request url))"
        using confirmCallback_no_throw[OF h conf[OF True Some]] .
      then show ?thesis
        using verified True Some h by (simp add: receiveRequest_def callOnError_supplied)
    qed
  next
    case notification: False
    show ?thesis
    proof (cases "JSON_parse (Message parsed)")
      case (Inl er)
      then show ?thesis
        using verified notification h by (simp add: receiveRequest_def callOnError_supplied)
    next
      case (Inr payload)
      obtain u where u: "unwrapMessage payload = Some u"
        using unwrapMessage_total[OF pay[OF Inr]] by blast
      show ?thesis
      proof (cases u)
        case (Proceed n)
        have c: "completeNotification n" using whole[OF Inr] u Proceed by simp
        then have ci: "carriesIdentity n" by (simp add: completeNotification_def)
        have un: "unwrapMessage payload = Some (Proceed n)" using u Proceed by simp
        have "receiveRequest JSON_parse request err parsed handlers store =
           dispatch handlers store n
             (lookup (lookup (lookup n ''deviceInfo'') ''deviceIdentifier'') ''serialNumber'',
              lookup (lookup (lookup n ''deviceInfo'') ''productIdentifier'') ''modelId'',
              notificationTypeOf n,
              lookup (lookup n ''customerInfo'') ''directedCustomerId'')"
          using receiveRequest_proceed[where JSON_parse=JSON_parse and parsed=parsed
              and payload=payload, OF verified notification Inr un ci] .
        then show ?thesis
          using dispatch_no_throw[OF h carriesIdentity_not_nullish[OF ci],
              of "notificationTypeOf n"] c
          by (simp add: completeNotification_def)
      next
        case (UnknownType t)
        then show ?thesis
          using verified notification Inr u h by (simp add: receiveRequest_def callOnError_supplied)
      next
        case NonDRS
        then show ?thesis
          using verified notification Inr u h by (simp add: receiveRequest_def callOnError_supplied)
      qed
    qed
  qed
qed

lemma dispatch_reports_missing:
  assumes "handlerMissing handlers t" and "onError handlers"
  shows "\<exists>e. code e = ''missing_handler'' \<and>
             fst (dispatch handlers store n (s, m, t, c)) = [Call_onError e]"
proof -
  obtain ty name supplied where "(ty, name, supplied) \<in> set handlerTable"
    and "t = JStr ty" and "\<not> supplied handlers"
    using assms(1) by (auto simp: handlerMissing_def list_ex_iff)
  then show ?thesis using dispatch_missing[OF _ _ assms(2), of ty name supplied store n s m c]
    by simp
qed

lemma confirmCallback_bad_status:
  assumes "onError handlers" and "\<not> nullish (fst (snd r))"
    and "lookup (fst (snd r)) ''statusCode'' \<noteq> JNum 200"
  shows "\<exists>e. code e = ''invalid_subscription_request_response'' \<and>
             confirmCallback handlers err r = [Call_onError e]"
  using assms
  by (cases r) (simp add: confirmCallback_def callOnError_supplied Let_def getProp_lookup)

lemma failure_reported:
  assumes h: "onError handlers"
    and conf: "\<And>url. Type parsed = ''SubscriptionConfirmation'' \<Longrightarrow>
                 SubscribeURL parsed = Some url \<Longrightarrow> \<not> nullish (fst (snd (request url)))"
    and pay: "\<And>payload. JSON_parse (Message parsed) = Inr payload \<Longrightarrow> \<not> nullish payload"
    and whole: "\<And>payload n. JSON_parse (Message parsed) = Inr payload \<Longrightarrow>
                 unwrapMessage payload = Some (Proceed n) \<Longrightarrow> completeNotification n"
    and f: "failureOf JSON_parse request err parsed handlers = Some c"
  shows "\<exists>e. code e = c \<and>
           (fst (receiveRequest JSON_parse request err parsed handlers store) = [Call_onError e] \<or>
            (\<exists>url. fst (receiveRequest JSON_parse request err parsed handlers store) =
                     [Request url, Call_onError e]))"
proof (cases "truthy err")
  case True
  then show ?thesis
    using h f by (simp add: receiveRequest_def callOnError_supplied failureOf_def)
next
  case verified: False
  show ?thesis
  proof (cases "Type parsed = ''SubscriptionConfirmation''")
    case True
    show ?thesis
    proof (cases "SubscribeURL parsed")
      case None
      then show ?thesis
        using verified True h f
        by (simp add: receiveRequest_def callOnError_supplied failureOf_def)
    next
      case (Some url)
      show ?thesis
      proof (cases "url = []")
        case True
        then show ?thesis
          using verified \<open>Type parsed = ''SubscriptionConfirmation''\<close> Some h f
          by (simp add: receiveRequest_def callOnError_supplied failureOf_def)
      next
        case False
        then have c: "c = ''invalid_subscription_request_response''"
          and bad: "lookup (fst (snd (request url))) ''statusCode'' \<noteq> JNum 200"
          using verified True Some f by (simp_all add: failureOf_def split: if_splits)
        obtain e where "code e = ''invalid_subscription_request_response''"
          and "confirmCallback handlers err (request url) = [Call_onError e]"
          using confirmCallback_bad_status[OF h conf[OF True Some] bad] by blast
        then show ?thesis
          using verified True Some False c by (simp add: receiveRequest_def)
      qed
    qed
  next
    case notification: False
    show ?thesis
    proof (cases "JSON_parse (Message parsed)")
      case (Inl er)
      then show ?thesis
        using verified notification h f
        by (simp add: receiveRequest_def callOnError_supplied failureOf_def)
    next
      case (Inr payload)
      note nn = pay[OF Inr]
      note uc = unwrapMessage_cases[OF nn]
      show ?thesis
      proof (cases "unwrapMessage payload")
        case None
        then show ?thesis using unwrapMessage_total[OF nn] by simp
      next
        case (Some u)
        show ?thesis
        proof (cases u)
          case (Proceed n)
          have un: "unwrapMessage payload = Some (Proceed n)" using Some Proceed by simp
          have ci: "carriesIdentity n"
            using whole[OF Inr un] by (simp add: completeNotification_def)
          have r: "receiveRequest JSON_parse request err parsed handlers store =
             dispatch handlers store n
               (lookup (lookup (lookup n ''deviceInfo'') ''deviceIdentifier'') ''serialNumber'',
                lookup (lookup (lookup n ''deviceInfo'') ''productIdentifier'') ''modelId'',
                notificationTypeOf n,
                lookup (lookup n ''customerInfo'') ''directedCustomerId'')"
            using receiveRequest_proceed[where JSON_parse=JSON_parse and parsed=parsed
                and payload=payload, OF verified notification Inr un ci] .
          have "c = ''missing_handler'' \<and> handlerMissing handlers (notificationTypeOf n)"
            using f verified notification Inr uc un
            by (auto simp: failureOf_def split: option.splits if_splits)
          then show ?thesis
            unfolding r using dispatch_reports_missing[OF _ h] by blast
        next
          case (UnknownType t)
          then have "c = ''unknown_message''"
            using f verified notification Inr uc Some
            by (auto simp: failureOf_def split: option.splits if_splits)
          then show ?thesis
            using verified notification Inr Some UnknownType h
            by (simp add: receiveRequest_def callOnError_supplied)
        next
          case NonDRS
          then have "c = ''not_drs'' \<and> \<not> onNonDRSMessage handlers"
            using f verified notification Inr uc Some
            by (auto simp: failureOf_def split: option.splits if_splits)
          then show ?thesis
            using verified notification Inr Some NonDRS h
            by (simp add: receiveRequest_def callOnError_supplied)
        qed
      qed
    qed
  qed
qed

text \<open>
  Claim C2, amended. Let \<open>onError\<close> be supplied, let the HTTP client hand a
  response object to the confirmation callback, let the payload (when the message
  parses) be neither \<open>null\<close> nor \<open>undefined\<close>, and let the notification the
  unwrapper goes on with (when it does) be complete: it has
  \<open>deviceInfo.deviceIdentifier\<close>, \<open>deviceInfo.productIdentifier\<close>,
  \<open>notificationInfo\<close>, \<open>customerInfo\<close> and, for the three order types,
  \<open>orderInfo\<close>. Then \<open>receiveRequest\<close> raises no exception, and each failure of
  the error table is reported through \<open>onError\<close> with its code, as the one
  callback of the call: a failed verification, a confirmation envelope without
  URL, a confirmation response with a status other than 200, a message that does
  not parse, an unknown type at the top level of the payload, a payload that is
  no notification when \<open>onNonDRSMessage\<close> is absent, and a type of the dispatch
  table whose handler is absent.
\<close>

theorem receiveRequest_reports_failures:
  assumes h: "onError handlers"
    and conf: "\<And>url. Type parsed = ''SubscriptionConfirmation'' \<Longrightarrow>
                 SubscribeURL parsed = Some url \<Longrightarrow> \<not> nullish (fst (snd (request url)))"
    and pay: "\<And>payload. JSON_parse (Message parsed) = Inr payload \<Longrightarrow> \<not> nullish payload"
    and whole: "\<And>payload n. JSON_parse (Message parsed) = Inr payload \<Longrightarrow>
                 unwrapMessage payload = Some (Proceed n) \<Longrightarrow> completeNotification n"
  shows "TypeError \<notin> set (fst (receiveRequest JSON_parse request err parsed handlers store)) \<and>
         (\<forall>c. failureOf JSON_parse request err parsed handlers = Some c \<longrightarrow>
            (\<exists>e. code e = c \<and>
               (fst (receiveRequest JSON_parse request err parsed handlers store) =
                  [Call_onError e] \<or>
                (\<exists>url. fst (receiveRequest JSON_parse request err parsed handlers store) =
                   [Request url, Call_onError e]))))"
proof -
  have "TypeError \<notin> set (fst (receiveRequest JSON_parse request err parsed handlers store))"
    using h conf pay whole by (rule no_TypeError)
  moreover have "\<exists>e. code e = c \<and>
               (fst (receiveRequest JSON_parse request err parsed handlers store) =
                  [Call_onError e] \<or>
                (\<exists>url. fst (receiveRequest JSON_parse request err parsed handlers store) =
                   [Request url, Call_onError e]))"
    if "failureOf JSON_parse request err parsed handlers = Some c" for c
    using h conf pay whole that by (rule failure_reported)
  ultimately show ?thesis by blast
qed

theorem receiveRequest_reports_failures_witness:
  "onError (handlersWith False True) \<and>
   \<not> nullish (notification ''OrderPlacedNotification'') \<and>
   unwrapMessage (notification ''OrderPlacedNotification'') =
     Some (Proceed (notification ''OrderPlacedNotification'')) \<and>
   completeNotification (notification ''OrderPlacedNotification'') \<and>
   \<not> nullish (fst (snd (respondWith 500 ''https://sns/confirm''))) \<and>
   failureOf (\<lambda>m. Inr (notification ''OrderPlacedNotification'')) (respondWith 500) JNull
     (envelope ''Notification'' ''{}'' None) (handlersWith False True) =
     Some ''missing_handler'' \<and>
   failureOf (\<lambda>m. Inr (notification ''OrderPlacedNotification'')) (respondWith 500) JNull
     (envelope ''SubscriptionConfirmation'' ''confirm'' (Some ''https://sns/confirm''))
     (handlersWith False True) = Some ''invalid_subscription_request_response'' \<and>
   TypeError \<notin> set (fst (receiveRequest (\<lambda>m. Inr (notification ''OrderPlacedNotification''))
     (respondWith 500) JNull (envelope ''Notification'' ''{}'' None)
     (handlersWith False True) [])) \<and>
   (\<exists>e. code e = ''missing_handler'' \<and>
      fst (receiveRequest (\<lambda>m. Inr (notification ''OrderPlacedNotification''))
        (respondWith 500) JNull (envelope ''Notification'' ''{}'' None)
        (handlersWith False True) []) = [Call_onError e]) \<and>
   (\<exists>e. code e = ''invalid_subscription_request_response'' \<and>
      fst (receiveRequest (\<lambda>m. Inr (notification ''OrderPlacedNotification''))
        (respondWith 500) JNull
        (envelope ''SubscriptionConfirmation'' ''confirm'' (Some ''https://sns/confirm''))
        (handlersWith False True) []) = [Request ''https://sns/confirm'', Call_onError e])"
proof -
  let ?parse = "\<lambda>m::string. (Inr (notification ''OrderPlacedNotification'') :: jsval + jsval)"
  let ?note = "envelope ''Notification'' ''{}'' None"
  let ?conf = "envelope ''SubscriptionConfirmation'' ''confirm'' (Some ''https://sns/confirm'')"
  have h: "onError (handlersWith False True)" by (simp add: handlersWith_def)
  have nn: "\<not> nullish (notification ''OrderPlacedNotification'')"
    by (simp add: nullish_def notification_def)
  have un: "unwrapMessage (notification ''OrderPlacedNotification'') =
     Some (Proceed (notification ''OrderPlacedNotification''))"
    by (simp add: eval_defs example_defs)
  have cn: "completeNotification (notification ''OrderPlacedNotification'')"
    by (simp add: completeNotification_def carriesIdentity_def notificationTypeOf_def
        lookup_def notification_def nullish_def)
  have rs: "\<not> nullish (fst (snd (respondWith 500 url)))" for url
    by (simp add: respondWith_def nullish_def)
  have p: "\<not> nullish payload" if "?parse (Message e) = Inr payload" for payload e
    using that nn by auto
  have w: "completeNotification n"
    if "?parse (Message e) = Inr payload" and "unwrapMessage payload = Some (Proceed n)"
    for payload n e
    using that un cn by auto
  have f1: "failureOf ?parse (respondWith 500) JNull ?note (handlersWith False True) =
     Some ''missing_handler''"
    by (simp add: failureOf_def handlerMissing_def handlerTable_def transportKeys_def
        guardHolds_def andProp_def knownType_def knownMessageTypes_def notificationTypeOf_def
        lookup_def example_defs)
  have f2: "failureOf ?parse (respondWith 500) JNull ?conf (handlersWith False True) =
     Some ''invalid_subscription_request_response''"
    by (simp add: failureOf_def lookup_def respondWith_def example_defs)
  have 1: "TypeError \<notin> set (fst (receiveRequest ?parse (respondWith 500) JNull ?note
             (handlersWith False True) [])) \<and>
         (\<forall>c. failureOf ?parse (respondWith 500) JNull ?note (handlersWith False True) = Some c \<longrightarrow>
            (\<exists>e. code e = c \<and>
               (fst (receiveRequest ?parse (respondWith 500) JNull ?note
                  (handlersWith False True) []) = [Call_onError e] \<or>
                (\<exists>url. fst (receiveRequest ?parse (respondWith 500) JNull ?note
                  (handlersWith False True) []) = [Request url, Call_onError e]))))"
    by (rule receiveRequest_reports_failures[where JSON_parse="?parse", OF h rs p w])
  have 2: "TypeError \<notin> set (fst (receiveRequest ?parse (respondWith 500) JNull ?conf
             (handlersWith False True) [])) \<and>
         (\<forall>c. failureOf ?parse (respondWith 500) JNull ?conf (handlersWith False True) = Some c \<longrightarrow>
            (\<exists>e. code e = c \<and>
               (fst (receiveRequest ?parse (respondWith 500) JNull ?conf
                  (handlersWith False True) []) = [Call_onError e] \<or>
                (\<exists>url. fst (receiveRequest ?parse (respondWith 500) JNull ?conf
                  (handlersWith False True) []) = [Request url, Call_onError e]))))"
    by (rule receiveRequest_reports_failures[where JSON_parse="?parse", OF h rs p w])
  have r1: "fst (receiveRequest ?parse (respondWith 500) JNull ?note
                  (handlersWith False True) []) \<noteq> [Request url, Call_onError e]" for url e
    by (simp add: eval_defs example_defs)
  have r2: "fst (receiveRequest ?parse (respondWith 500) JNull ?conf
                  (handlersWith False True) []) \<noteq> [Call_onError e]" for e
    by (simp add: eval_defs example_defs respondWith_def Let_def)
  have r3: "fst (receiveRequest ?parse (respondWith 500) JNull ?conf
                  (handlersWith False True) []) = [Request url, Call_onError e]
            \<Longrightarrow> url = ''https://sns/confirm''" for url e
    by (simp add: eval_defs example_defs respondWith_def Let_def)
  have m1: "\<exists>e. code e = ''missing_handler'' \<and>
      fst (receiveRequest ?parse (respondWith 500) JNull ?note (handlersWith False True) []) =
        [Call_onError e]"
    using 1 f1 r1 by blast
  have m2: "\<exists>e. code e = ''invalid_subscription_request_response'' \<and>
      fst (receiveRequest ?parse (respondWith 500) JNull ?conf (handlersWith False True) []) =
        [Request ''https://sns/confirm'', Call_onError e]"
    using 2 f2 r2 r3 by blast
  show ?thesis using h nn un cn rs f1 f2 1 2 m1 m2 by simp
qed

text \<open>
  As first stated, for every input: on a payload of a known type that has no
  \<open>deviceInfo\<close>, the extraction of line 203 raises a TypeError after the
  classification has succeeded.
\<close>

theorem receiveRequest_extraction_throws:
  "TypeError \<in> set (fst (receiveRequest (\<lambda>m. Inr bare) (respondWith 200) JNull
               (envelope ''Notification'' ''{}'' None) (handlersWith True True) []))"
  by (simp add: eval_defs example_defs bare_def)

section \<open>One terminal action\<close>

text \<open>
  Claim C1, amended. Exactly one terminal action occurs per call, and nothing
  besides it: one handler invocation, or one error report, or for a confirmation
  envelope one confirmation attempt, followed at most by the one error report of
  its outcome, and no handler invocation. This holds whenever \<open>onError\<close> is
  supplied, the HTTP client hands a response object to the confirmation callback,
  the payload (when the message parses) is neither \<open>null\<close> nor \<open>undefined\<close>,
  and the notification the unwrapper goes on with (when it does) is complete and
  of one of the six known types.
\<close>

theorem receiveRequest_one_terminal_action:
  assumes h: "onError handlers"
    and conf: "\<And>url. Type parsed = ''SubscriptionConfirmation'' \<Longrightarrow>
                 SubscribeURL parsed = Some url \<Longrightarrow> \<not> nullish (fst (snd (request url)))"
    and pay: "\<And>payload. JSON_parse (Message parsed) = Inr payload \<Longrightarrow> \<not> nullish payload"
    and whole: "\<And>payload n. JSON_parse (Message parsed) = Inr payload \<Longrightarrow>
                 unwrapMessage payload = Some (Proceed n) \<Longrightarrow>
                 completeNotification n \<and> knownType n"
  shows "oneTerminalAction parsed
           (fst (receiveRequest JSON_parse request err parsed handlers store))"
proof (cases "truthy err")
  case True
  then show ?thesis
    using h by (simp add: receiveRequest_def callOnError_supplied single_terminal)
next
  case verified: False
  show ?thesis
  proof (cases "Type parsed = ''SubscriptionConfirmation''")
    case True
    show ?thesis
    proof (cases "SubscribeURL parsed")
      case None
      then show ?thesis
        using verified True h
        by (simp add: receiveRequest_def callOnError_supplied single_terminal)
    next
      case (Some url)
      show ?thesis
        using verified True Some h
          confirmation_terminal[OF True confirmCallback_shape[OF h conf[OF True Some], of err],
            of url]
        by (simp add: receiveRequest_def callOnError_supplied single_terminal)
    qed
  next
    case notification: False
    show ?thesis
    proof (cases "JSON_parse (Message parsed)")
      case (Inl er)
      then show ?thesis
        using verified notification h
        by (simp add: receiveRequest_def callOnError_supplied single_terminal)
    next
      case (Inr payload)
      obtain u where u: "unwrapMessage payload = Some u"
        using unwrapMessage_total[OF pay[OF Inr]] by blast
      show ?thesis
      proof (cases u)
        case (Proceed n)
        have c: "completeNotification n" and k: "knownType n"
          using whole[OF Inr] u Proceed by simp_all
        then have ci: "carriesIdentity n" by (simp add: completeNotification_def)
        have un: "unwrapMessage payload = Some (Proceed n)" using u Proceed by simp
        have r: "receiveRequest JSON_parse request err parsed handlers store =
           dispatch handlers store n
             (lookup (lookup (lookup n ''deviceInfo'') ''deviceIdentifier'') ''serialNumber'',
              lookup (lookup (lookup n ''deviceInfo'') ''productIdentifier'') ''modelId'',
              notificationTypeOf n,
              lookup (lookup n ''customerInfo'') ''directedCustomerId'')"
          using receiveRequest_proceed[where JSON_parse=JSON_parse and parsed=parsed
              and payload=payload, OF verified notification Inr un ci] .
        have "\<exists>a. fst (receiveRequest JSON_parse request err parsed handlers store) = [a] \<and>
                  (isHandlerCall a \<or> isErrorReport a)"
          unfolding r
          using dispatch_known[OF h carriesIdentity_not_nullish[OF ci],
              of "notificationTypeOf n"] c k
          by (simp add: completeNotification_def knownType_def)
        then show ?thesis using single_terminal by auto
      next
        case (UnknownType t)
        then show ?thesis
          using verified notification Inr u h
          by (simp add: receiveRequest_def callOnError_supplied single_terminal)
      next
        case NonDRS
        then show ?thesis
          using verified notification Inr u h
          by (simp add: receiveRequest_def callOnError_supplied single_terminal)
      qed
    qed
  qed
qed

theorem receiveRequest_one_terminal_action_witness:
  "onError (handlersWith True True) \<and>
   \<not> nullish (notification ''OrderPlacedNotification'') \<and>
   unwrapMessage (notification ''OrderPlacedNotification'') =
     Some (Proceed (notification ''OrderPlacedNotification'')) \<and>
   completeNotification (notification ''OrderPlacedNotification'') \<and>
   knownType (notification ''OrderPlacedNotification'') \<and>
   \<not> nullish (fst (snd (respondWith 500 ''https://sns/confirm''))) \<and>
   oneTerminalAction (envelope ''Notification'' ''{}'' None)
     (fst (receiveRequest (\<lambda>m. Inr (notification ''OrderPlacedNotification''))
        (respondWith 500) JNull (envelope ''Notification'' ''{}'' None)
        (handlersWith True True) [])) \<and>
   oneTerminalAction
     (envelope ''SubscriptionConfirmation'' ''confirm'' (Some ''https://sns/confirm''))
     (fst (receiveRequest (\<lambda>m. Inr (notification ''OrderPlacedNotification''))
        (respondWith 500) JNull
        (envelope ''SubscriptionConfirmation'' ''confirm'' (Some ''https://sns/confirm''))
        (handlersWith True True) []))"
proof -
  let ?parse = "\<lambda>m::string. (Inr (notification ''OrderPlacedNotification'') :: jsval + jsval)"
  have h: "onError (handlersWith True True)" by (simp add: handlersWith_def)
  have nn: "\<not> nullish (notification ''OrderPlacedNotification'')"
    by (simp add: nullish_def notification_def)
  have un: "unwrapMessage (notification ''OrderPlacedNotification'') =
     Some (Proceed (notification ''OrderPlacedNotification''))"
    by (simp add: eval_defs example_defs)
  have cn: "completeNotification (notification ''OrderPlacedNotification'')"
    by (simp add: completeNotification_def carriesIdentity_def notificationTypeOf_def
        lookup_def notification_def nullish_def)
  have kn: "knownType (notification ''OrderPlacedNotification'')"
    by (simp add: knownType_def notificationTypeOf_def lookup_def notification_def
        knownMessageTypes_def)
  have rs: "\<not> nullish (fst (snd (respondWith 500 url)))" for url
    by (simp add: respondWith_def nullish_def)
  have p: "\<not> nullish payload" if "?parse (Message e) = Inr payload" for payload e
    using that nn by auto
  have w: "completeNotification n \<and> knownType n"
    if "?parse (Message e) = Inr payload" and "unwrapMessage payload = Some (Proceed n)"
    for payload n e
    using that un cn kn by auto
  have 1: "oneTerminalAction (envelope ''Notification'' ''{}'' None)
     (fst (receiveRequest ?parse (respondWith 500) JNull (envelope ''Notification'' ''{}'' None)
        (handlersWith True True) []))"
    by (rule receiveRequest_one_terminal_action[where JSON_parse="?parse", OF h rs p w])
  have 2: "oneTerminalAction
     (envelope ''SubscriptionConfirmation'' ''confirm'' (Some ''https://sns/confirm''))
     (fst (receiveRequest ?parse (respondWith 500) JNull
        (envelope ''SubscriptionConfirmation'' ''confirm'' (Some ''https://sns/confirm''))
        (handlersWith True True) []))"
    by (rule receiveRequest_one_terminal_action[where JSON_parse="?parse", OF h rs p w])
  show ?thesis using h nn un cn kn rs 1 2 by simp
qed

text \<open>
  As first stated, for every envelope: on a notification of a known type without
  \<open>customerInfo\<close>, with every handler supplied, the extraction of line 206 raises
  a TypeError and the call ends with no handler invocation and no error report.
\<close>

theorem receiveRequest_incomplete_notification_no_action:
  "\<not> oneTerminalAction (envelope ''Notification'' ''{}'' None)
       (fst (receiveRequest (\<lambda>m. Inr anonymous) (respondWith 200) JNull
               (envelope ''Notification'' ''{}'' None) (handlersWith True True) []))"
  by (simp add: eval_defs example_defs anonymous_def oneTerminalAction_def)

end
